theory Spec2Isabelle
  imports Main
begin

section \<open>Data model\<close>

text \<open>
  The rows of the four tables the server actions touch, as the TypeScript types declare
  them (types/product.ts, types/cart.ts, types/order.ts, types/payment.ts).  Amounts and
  quantities are JavaScript numbers holding integers and are modelled as \<open>int\<close>;
  timestamps are modelled as \<open>nat\<close>.  Record fields carry a prefix naming their table,
  because several tables share the column names \<open>id\<close>, \<open>clerk_id\<close> and \<open>quantity\<close>.
\<close>

datatype OrderStatus = pending | confirmed | shipped | delivered | cancelled

datatype PaymentStatus = pay_pending | pay_success | pay_failed | pay_cancelled

text \<open>
  The seven payment methods of types/payment.ts: card, virtual account, account transfer,
  mobile phone, gift certificate, book gift certificate, game gift certificate.
\<close>

datatype PaymentMethod =
  Card | VirtualAccount | AccountTransfer | MobilePhone
  | GiftCertificate | BookGiftCertificate | GameGiftCertificate

record Product =
  prod_id :: string
  prod_name :: string
  prod_description :: "string option"
  prod_price :: int
  prod_category :: "string option"
  prod_stock_quantity :: int
  prod_is_active :: bool

record CartItem =
  cart_id :: string
  cart_clerk_id :: string
  cart_product_id :: string
  cart_quantity :: int
  cart_created_at :: nat

text \<open>A cart row joined with its product (\<open>CartItemWithProduct\<close>).\<close>

type_synonym CartItemWithProduct = "CartItem \<times> Product"

record ShippingAddress =
  ship_name :: string
  ship_phone :: string
  ship_postcode :: string
  ship_address :: string
  ship_detailAddress :: string

record PaymentInfo =
  pi_amount :: int
  pi_method :: PaymentMethod
  pi_paymentKey :: string
  pi_orderId :: string
  pi_receipt :: "(string \<times> string) option"
  pi_fee :: "(int \<times> string) option"

record Order =
  ord_id :: string
  ord_clerk_id :: string
  ord_total_amount :: int
  ord_status :: OrderStatus
  ord_shipping_address :: "ShippingAddress option"
  ord_order_note :: "string option"
  ord_payment_id :: "string option"
  ord_payment_method :: "PaymentMethod option"
  ord_payment_status :: "PaymentStatus option"
  ord_paid_at :: "nat option"
  ord_payment_info :: "PaymentInfo option"
  ord_created_at :: nat

text \<open>
  An order line holds the columns \<open>createOrder\<close> writes; the columns the store fills in
  by itself (\<open>id\<close>, \<open>created_at\<close>) are left out.
\<close>

record OrderItem =
  oi_order_id :: string
  oi_product_id :: string
  oi_product_name :: string
  oi_quantity :: int
  oi_price :: int

type_synonym OrderWithItems = "Order \<times> OrderItem list"

section \<open>The store, the gateway and the environment of a request\<close>

text \<open>
  Every place where an action calls the store is a call site.  A call either works on the
  tables or returns an error object; which one is decided by the environment, so that
  every failure branch of the source is a branch of the model.  The store client reports
  failures through the error object and does not throw; the catch-all blocks of the
  actions are reached from the calls that can throw: \<open>getProductById\<close>, \<open>fetch\<close> and
  \<open>response.json()\<close>.
\<close>

datatype StoreCall =
  ProductsSelectOne
  | CartSelectExisting | CartUpdateQuantity | CartInsert | CartSelectJoin | CartDeleteAll
  | OrdersInsert | OrderItemsInsert | OrdersSelectOne | OrderItemsSelect
  | OrdersSelectStatus | OrdersUpdateStatus | OrdersUpdatePayment | OrdersUpdateCancel

text \<open>The payment method as the gateway's response names it; anything else is \<open>TOther\<close>.\<close>

datatype TossMethod = TCard | TVirtualAccount | TAccountTransfer | TMobilePhone | TOther string

text \<open>
  The JSON body of a gateway response.  An error body carries \<open>message\<close>; a success body
  carries the payment fields.
\<close>

record TossBody =
  tb_message :: "string option"
  tb_method :: TossMethod
  tb_totalAmount :: int
  tb_paymentKey :: string
  tb_orderId :: string
  tb_receipt :: "(string \<times> string) option"
  tb_fee :: "(int \<times> string) option"

text \<open>\<open>response.json()\<close> either throws or yields the body.\<close>

datatype JsonResult = JsonThrows | Json TossBody

text \<open>
  \<open>fetch\<close> either throws (timeout, transport failure) or yields a response with its
  \<open>ok\<close> flag and body.
\<close>

datatype FetchOutcome = FetchThrows | Response bool JsonResult

record Env =
  auth_userId :: "string option"
  now :: nat
  secretKey :: "string option"
  store_fails :: "StoreCall \<Rightarrow> bool"
  new_order_id :: string
  new_cart_id :: string
  gateway :: "string \<Rightarrow> string \<Rightarrow> int \<Rightarrow> FetchOutcome"

text \<open>
  The world an action runs in: the four tables, the log of write calls sent to the store
  (whether they succeeded or not) and the log of requests sent to the gateway.
\<close>

record World =
  products :: "Product list"
  cart_items :: "CartItem list"
  orders :: "Order list"
  order_items :: "OrderItem list"
  write_log :: "StoreCall list"
  gateway_calls :: "(string \<times> string \<times> int) list"

text \<open>
  The messages of the result objects.  Each constructor stands for one message literal of
  the source; a constructor with arguments stands for a template literal and carries the
  interpolated values.  \<open>MsgGatewayText\<close> is the text taken over from the gateway's error
  body; it is opaque to the actions.
\<close>

datatype Message =
  MsgLoginRequired
  | MsgLoginRequiredCart
  | MsgQuantityMin
  | MsgProductNotFound
  | MsgStockInsufficient int
  | MsgCartLoadFailed
  | MsgStockInsufficientWithExisting int int
  | MsgCartAddFailed
  | MsgCartAddedTotal int
  | MsgCartAdded
  | MsgCartException
  | MsgLoginRequiredOrder
  | MsgCartEmpty
  | MsgProductNotOnSale "string option"
  | MsgStockShort string int int
  | MsgOrderInsertFailed
  | MsgOrderItemsSaveFailed
  | MsgOrderCreated
  | MsgOrderException
  | MsgBadOrderId
  | MsgOrderNotFoundOrNoAccess
  | MsgAlreadyInStatus
  | MsgCannotChange OrderStatus OrderStatus
  | MsgStatusUpdateFailed
  | MsgStatusChanged OrderStatus
  | MsgStatusException
  | MsgOrderNotFound
  | MsgNoPermission
  | MsgAlreadyPaid
  | MsgNotPayable OrderStatus
  | MsgPaymentReady
  | MsgRequestException
  | MsgAmountMismatch
  | MsgServerConfig
  | MsgGatewayText string
  | MsgConfirmRejectedDefault
  | MsgPaidButUpdateFailed
  | MsgPaymentDone
  | MsgConfirmException
  | MsgNotCancellable OrderStatus
  | MsgCancelFailed
  | MsgCancelled
  | MsgCancelException

text \<open>\<open>{ success, message }\<close>\<close>

type_synonym Result = "bool \<times> Message"

record CreateOrderResult =
  cr_success :: bool
  cr_orderId :: "string option"
  cr_message :: Message

record PaymentRequestResponse =
  pr_success :: bool
  pr_orderId :: "string option"
  pr_message :: Message

section \<open>Helpers of the runtime\<close>

text \<open>\<open>auth()\<close> followed by \<open>if (!userId)\<close>: a missing or empty id is not signed in.\<close>

definition currentUser :: "Env \<Rightarrow> string option" where
  "currentUser env =
     (case auth_userId env of
        None \<Rightarrow> None
      | Some u \<Rightarrow> if u = [] then None else Some u)"

definition isHex :: "char \<Rightarrow> bool" where
  "isHex c = (c \<in> set ''0123456789abcdefABCDEF'')"

text \<open>
  The regular expression of the actions, case-insensitive and anchored at both ends:
  groups of 8, 4, 4, 4 and 12 hexadecimal digits separated by hyphens.
\<close>

definition uuidRegex_test :: "string \<Rightarrow> bool" where
  "uuidRegex_test s =
     (length s = 36 \<and>
      (\<forall>i \<in> set [0..<36].
         if i \<in> {8, 13, 18, 23} then s ! i = CHR ''-'' else isHex (s ! i)))"

text \<open>
  \<open>.single()\<close>: the row when the filter leaves exactly one, the code PGRST116 when it
  leaves none or several, another error when the call itself fails.
\<close>

datatype 'a SingleResult = Row 'a | PGRST116 | OtherError

definition single :: "bool \<Rightarrow> 'a list \<Rightarrow> 'a SingleResult" where
  "single fails rows =
     (if fails then OtherError
      else case rows of [r] \<Rightarrow> Row r | _ \<Rightarrow> PGRST116)"

definition logWrite :: "StoreCall \<Rightarrow> World \<Rightarrow> World" where
  "logWrite c w = w\<lparr>write_log := write_log w @ [c]\<rparr>"

section \<open>lib/utils/orders.ts\<close>



section \<open>actions/get-products.ts\<close>

text \<open>A call that may throw: \<open>Threw\<close> is the exception, \<open>Ret\<close> the returned value.\<close>

datatype 'a Outcome = Threw | Ret 'a

text \<open>
  \<open>getProductById\<close>: null for a malformed id or when no active product has the id;
  any other store error is thrown to the caller.
\<close>

definition getProductById :: "Env \<Rightarrow> World \<Rightarrow> string \<Rightarrow> Product option Outcome" where
  "getProductById env w productId =
     (if \<not> uuidRegex_test productId then Ret None
      else case single (store_fails env ProductsSelectOne)
                  (filter (\<lambda>p. prod_id p = productId \<and> prod_is_active p) (products w)) of
             OtherError \<Rightarrow> Threw
           | PGRST116 \<Rightarrow> Ret None
           | Row p \<Rightarrow> Ret (Some p))"

section \<open>actions/cart.ts\<close>

definition addToCart :: "Env \<Rightarrow> World \<Rightarrow> string \<Rightarrow> int \<Rightarrow> Result \<times> World" where
  "addToCart env w productId quantity =
     (case currentUser env of
        None \<Rightarrow> ((False, MsgLoginRequiredCart), w)
      | Some userId \<Rightarrow>
          if quantity < 1 then ((False, MsgQuantityMin), w)
          else case getProductById env w productId of
            Threw \<Rightarrow> ((False, MsgCartException), w)
          | Ret None \<Rightarrow> ((False, MsgProductNotFound), w)
          | Ret (Some product) \<Rightarrow>
              if prod_stock_quantity product < quantity
              then ((False, MsgStockInsufficient (prod_stock_quantity product)), w)
              else case single (store_fails env CartSelectExisting)
                          (filter (\<lambda>c. cart_clerk_id c = userId \<and> cart_product_id c = productId)
                             (cart_items w)) of
                OtherError \<Rightarrow> ((False, MsgCartLoadFailed), w)
              | Row existingCartItem \<Rightarrow>
                  (let newQuantity = cart_quantity existingCartItem + quantity in
                   if prod_stock_quantity product < newQuantity
                   then ((False, MsgStockInsufficientWithExisting
                                   (cart_quantity existingCartItem) (prod_stock_quantity product)), w)
                   else if store_fails env CartUpdateQuantity
                   then ((False, MsgCartAddFailed), logWrite CartUpdateQuantity w)
                   else ((True, MsgCartAddedTotal newQuantity),
                         logWrite CartUpdateQuantity
                           (w\<lparr>cart_items :=
                                map (\<lambda>c. if cart_id c = cart_id existingCartItem
                                          then c\<lparr>cart_quantity := newQuantity\<rparr> else c)
                                  (cart_items w)\<rparr>)))
              | PGRST116 \<Rightarrow>
                  if store_fails env CartInsert
                  then ((False, MsgCartAddFailed), logWrite CartInsert w)
                  else ((True, MsgCartAdded),
                        logWrite CartInsert
                          (w\<lparr>cart_items := cart_items w @
                               [\<lparr>cart_id = new_cart_id env, cart_clerk_id = userId,
                                 cart_product_id = productId, cart_quantity = quantity,
                                 cart_created_at = now env\<rparr>]\<rparr>)))"

text \<open>The embedded \<open>products (...)\<close> of the join: the product the row refers to, or null.\<close>

definition joinProduct :: "World \<Rightarrow> CartItem \<Rightarrow> Product option" where
  "joinProduct w c = find (\<lambda>p. prod_id p = cart_product_id c) (products w)"

text \<open>
  \<open>getCartItems\<close>: the caller's rows, newest first, without the rows whose product is
  null.  A store error is thrown and caught inside the function, which then returns [].
\<close>

definition getCartItems :: "Env \<Rightarrow> World \<Rightarrow> CartItemWithProduct list" where
  "getCartItems env w =
     (case currentUser env of
        None \<Rightarrow> []
      | Some userId \<Rightarrow>
          if store_fails env CartSelectJoin then []
          else
            (let cartItems = rev (sort_key cart_created_at
                                    (filter (\<lambda>c. cart_clerk_id c = userId) (cart_items w)))
             in if cartItems = [] then []
                else concat (map (\<lambda>c. case joinProduct w c of
                                         None \<Rightarrow> []
                                       | Some p \<Rightarrow> [(c, p)]) cartItems)))"

section \<open>actions/orders.ts\<close>

text \<open>
  The validation loop of \<open>createOrder\<close>: the message of the first offending line.  The
  product of a joined row is never null.  \<open>product?.name || ...\<close> falls back to the
  literal for an unknown product when the name is empty (\<open>None\<close> here).
\<close>

fun validateCart :: "CartItemWithProduct list \<Rightarrow> Message option" where
  "validateCart [] = None"
| "validateCart ((cartItem, product) # rest) =
     (if \<not> prod_is_active product
      then Some (MsgProductNotOnSale
                   (if prod_name product = [] then None else Some (prod_name product)))
      else if prod_stock_quantity product < cart_quantity cartItem
      then Some (MsgStockShort (prod_name product) (cart_quantity cartItem)
                   (prod_stock_quantity product))
      else validateCart rest)"

text \<open>\<open>cartItems.reduce((sum, item) => sum + item.product.price * item.quantity, 0)\<close>\<close>

definition totalAmountOf :: "CartItemWithProduct list \<Rightarrow> int" where
  "totalAmountOf cartItems =
     foldl (\<lambda>sum (item, product). sum + prod_price product * cart_quantity item) 0 cartItems"

definition toOrderItem :: "string \<Rightarrow> CartItemWithProduct \<Rightarrow> OrderItem" where
  "toOrderItem orderId item =
     \<lparr>oi_order_id = orderId,
      oi_product_id = cart_product_id (fst item),
      oi_product_name = prod_name (snd item),
      oi_quantity = cart_quantity (fst item),
      oi_price = prod_price (snd item)\<rparr>"

text \<open>\<open>orderNote || null\<close>: an empty note is stored as null.\<close>

definition noteOrNull :: "string option \<Rightarrow> string option" where
  "noteOrNull orderNote =
     (case orderNote of None \<Rightarrow> None | Some n \<Rightarrow> if n = [] then None else Some n)"

definition failOrder :: "Message \<Rightarrow> CreateOrderResult" where
  "failOrder m = \<lparr>cr_success = False, cr_orderId = None, cr_message = m\<rparr>"

definition createOrder ::
  "Env \<Rightarrow> World \<Rightarrow> ShippingAddress \<Rightarrow> string option \<Rightarrow> CreateOrderResult \<times> World" where
  "createOrder env w shippingAddress orderNote =
     (case currentUser env of
        None \<Rightarrow> (failOrder MsgLoginRequiredOrder, w)
      | Some userId \<Rightarrow>
          (let cartItems = getCartItems env w in
           if length cartItems = 0 then (failOrder MsgCartEmpty, w)
           else case validateCart cartItems of
             Some m \<Rightarrow> (failOrder m, w)
           | None \<Rightarrow>
              (let totalAmount = totalAmountOf cartItems;
                   w1 = logWrite OrdersInsert w
               in if store_fails env OrdersInsert then (failOrder MsgOrderInsertFailed, w1)
                  else
                   (let orderId = new_order_id env;
                        w2 = w1\<lparr>orders := orders w1 @
                               [\<lparr>ord_id = orderId, ord_clerk_id = userId,
                                 ord_total_amount = totalAmount, ord_status = pending,
                                 ord_shipping_address = Some shippingAddress,
                                 ord_order_note = noteOrNull orderNote,
                                 ord_payment_id = None, ord_payment_method = None,
                                 ord_payment_status = None, ord_paid_at = None,
                                 ord_payment_info = None, ord_created_at = now env\<rparr>]\<rparr>;
                        orderItems = map (toOrderItem orderId) cartItems;
                        w3 = logWrite OrderItemsInsert w2
                    in if store_fails env OrderItemsInsert
                       then (failOrder MsgOrderItemsSaveFailed, w3)
                       else
                        (let w4 = w3\<lparr>order_items := order_items w3 @ orderItems\<rparr>;
                             w5 = logWrite CartDeleteAll w4;
                             w6 = (if store_fails env CartDeleteAll then w5
                                   else w5\<lparr>cart_items :=
                                          filter (\<lambda>c. cart_clerk_id c \<noteq> userId) (cart_items w5)\<rparr>)
                         in (\<lparr>cr_success = True, cr_orderId = Some orderId,
                              cr_message = MsgOrderCreated\<rparr>, w6))))))"

definition getOrderById :: "Env \<Rightarrow> World \<Rightarrow> string \<Rightarrow> OrderWithItems option" where
  "getOrderById env w orderId =
     (case currentUser env of
        None \<Rightarrow> None
      | Some userId \<Rightarrow>
          if \<not> uuidRegex_test orderId then None
          else case single (store_fails env OrdersSelectOne)
                      (filter (\<lambda>r. ord_id r = orderId \<and> ord_clerk_id r = userId) (orders w)) of
                 Row order \<Rightarrow>
                   if store_fails env OrderItemsSelect then None
                   else Some (order, filter (\<lambda>i. oi_order_id i = orderId) (order_items w))
               | _ \<Rightarrow> None)"


section \<open>actions/payments.ts\<close>

definition failPayment :: "Message \<Rightarrow> PaymentRequestResponse" where
  "failPayment m = \<lparr>pr_success = False, pr_orderId = None, pr_message = m\<rparr>"

definition requestPayment :: "Env \<Rightarrow> World \<Rightarrow> string \<Rightarrow> PaymentRequestResponse" where
  "requestPayment env w orderId =
     (case currentUser env of
        None \<Rightarrow> failPayment MsgLoginRequired
      | Some userId \<Rightarrow>
          (case getOrderById env w orderId of
             None \<Rightarrow> failPayment MsgOrderNotFound
           | Some (order, items) \<Rightarrow>
               if ord_clerk_id order \<noteq> userId then failPayment MsgNoPermission
               else if ord_payment_status order = Some pay_success then failPayment MsgAlreadyPaid
               else if ord_status order \<noteq> pending then failPayment (MsgNotPayable (ord_status order))
               else \<lparr>pr_success = True, pr_orderId = Some (ord_id order),
                     pr_message = MsgPaymentReady\<rparr>))"

text \<open>The chain of conditionals on \<open>paymentData.method\<close>, with card as the default.\<close>

fun toPaymentMethod :: "TossMethod \<Rightarrow> PaymentMethod" where
  "toPaymentMethod TCard = Card"
| "toPaymentMethod TVirtualAccount = VirtualAccount"
| "toPaymentMethod TAccountTransfer = AccountTransfer"
| "toPaymentMethod TMobilePhone = MobilePhone"
| "toPaymentMethod (TOther s) = Card"

text \<open>\<open>errorData.message || <default>\<close>: a missing or empty message gives the default.\<close>

definition rejectionMessage :: "TossBody \<Rightarrow> Message" where
  "rejectionMessage errorData =
     (case tb_message errorData of
        None \<Rightarrow> MsgConfirmRejectedDefault
      | Some m \<Rightarrow> if m = [] then MsgConfirmRejectedDefault else MsgGatewayText m)"

definition toPaymentInfo :: "TossBody \<Rightarrow> PaymentInfo" where
  "toPaymentInfo paymentData =
     \<lparr>pi_amount = tb_totalAmount paymentData,
      pi_method = toPaymentMethod (tb_method paymentData),
      pi_paymentKey = tb_paymentKey paymentData,
      pi_orderId = tb_orderId paymentData,
      pi_receipt = tb_receipt paymentData,
      pi_fee = tb_fee paymentData\<rparr>"

text \<open>\<open>process.env.TOSS_PAYMENTS_SECRET_KEY\<close> with \<open>if (!secretKey)\<close>.\<close>

definition configuredSecret :: "Env \<Rightarrow> string option" where
  "configuredSecret env =
     (case secretKey env of None \<Rightarrow> None | Some k \<Rightarrow> if k = [] then None else Some k)"

definition callGateway :: "string \<Rightarrow> string \<Rightarrow> int \<Rightarrow> World \<Rightarrow> World" where
  "callGateway paymentKey orderId amount w =
     w\<lparr>gateway_calls := gateway_calls w @ [(paymentKey, orderId, amount)]\<rparr>"

definition confirmPayment :: "Env \<Rightarrow> World \<Rightarrow> string \<Rightarrow> string \<Rightarrow> int \<Rightarrow> Result \<times> World" where
  "confirmPayment env w paymentKey orderId amount =
     (case currentUser env of
        None \<Rightarrow> ((False, MsgLoginRequired), w)
      | Some userId \<Rightarrow>
          (case getOrderById env w orderId of
             None \<Rightarrow> ((False, MsgOrderNotFound), w)
           | Some (order, items) \<Rightarrow>
               if ord_clerk_id order \<noteq> userId then ((False, MsgNoPermission), w)
               else if ord_total_amount order \<noteq> amount then ((False, MsgAmountMismatch), w)
               else case configuredSecret env of
                 None \<Rightarrow> ((False, MsgServerConfig), w)
               | Some key \<Rightarrow>
                  (let w1 = callGateway paymentKey orderId amount w in
                   case gateway env paymentKey orderId amount of
                     FetchThrows \<Rightarrow> ((False, MsgConfirmException), w1)
                   | Response ok body \<Rightarrow>
                      if \<not> ok then
                        (case body of
                           JsonThrows \<Rightarrow> ((False, MsgConfirmException), w1)
                         | Json errorData \<Rightarrow> ((False, rejectionMessage errorData), w1))
                      else
                        (case body of
                           JsonThrows \<Rightarrow> ((False, MsgConfirmException), w1)
                         | Json paymentData \<Rightarrow>
                            (let paymentMethod = toPaymentMethod (tb_method paymentData);
                                 paymentInfo = toPaymentInfo paymentData;
                                 w2 = logWrite OrdersUpdatePayment w1
                             in if store_fails env OrdersUpdatePayment
                                then ((False, MsgPaidButUpdateFailed), w2)
                                else ((True, MsgPaymentDone),
                                      w2\<lparr>orders :=
                                           map (\<lambda>r. if ord_id r = orderId \<and> ord_clerk_id r = userId
                                                     then r\<lparr>ord_payment_id := Some paymentKey,
                                                            ord_payment_method := Some paymentMethod,
                                                            ord_payment_status := Some pay_success,
                                                            ord_paid_at := Some (now env),
                                                            ord_payment_info := Some paymentInfo,
                                                            ord_status := confirmed\<rparr>
                                                     else r)
                                             (orders w2)\<rparr>))))))"

definition cancelPayment :: "Env \<Rightarrow> World \<Rightarrow> string \<Rightarrow> Result \<times> World" where
  "cancelPayment env w orderId =
     (case currentUser env of
        None \<Rightarrow> ((False, MsgLoginRequired), w)
      | Some userId \<Rightarrow>
          (case getOrderById env w orderId of
             None \<Rightarrow> ((False, MsgOrderNotFound), w)
           | Some (order, items) \<Rightarrow>
               if ord_clerk_id order \<noteq> userId then ((False, MsgNoPermission), w)
               else if ord_status order \<noteq> pending \<and> ord_status order \<noteq> confirmed
               then ((False, MsgNotCancellable (ord_status order)), w)
               else if store_fails env OrdersUpdateCancel
               then ((False, MsgCancelFailed), logWrite OrdersUpdateCancel w)
               else ((True, MsgCancelled),
                     logWrite OrdersUpdateCancel
                       (w\<lparr>orders :=
                            map (\<lambda>r. if ord_id r = orderId \<and> ord_clerk_id r = userId
                                      then r\<lparr>ord_status := cancelled,
                                             ord_payment_status := Some pay_cancelled\<rparr>
                                      else r)
                              (orders w)\<rparr>))))"

section \<open>A concrete shop\<close>

text \<open>
  Two products, the buyer \<open>user_a\<close> and a second user \<open>user_b\<close>, used to run the actions
  on concrete inputs.
\<close>

definition p1_id :: string where "p1_id = ''aaaaaaaa-aaaa-4aaa-8aaa-aaaaaaaaaaa1''"
definition p2_id :: string where "p2_id = ''aaaaaaaa-aaaa-4aaa-8aaa-aaaaaaaaaaa2''"
definition o1_id :: string where "o1_id = ''11111111-1111-4111-8111-111111111111''"

definition product1 :: Product where
  "product1 = \<lparr>prod_id = p1_id, prod_name = ''P1'', prod_description = None,
               prod_price = 1000, prod_category = None, prod_stock_quantity = 5,
               prod_is_active = True\<rparr>"

definition product2 :: Product where
  "product2 = \<lparr>prod_id = p2_id, prod_name = ''P2'', prod_description = None,
               prod_price = 500, prod_category = None, prod_stock_quantity = 9,
               prod_is_active = True\<rparr>"

definition line1 :: CartItem where
  "line1 = \<lparr>cart_id = ''c1'', cart_clerk_id = ''user_a'', cart_product_id = p1_id,
            cart_quantity = 2, cart_created_at = 20\<rparr>"

definition line2 :: CartItem where
  "line2 = \<lparr>cart_id = ''c2'', cart_clerk_id = ''user_a'', cart_product_id = p2_id,
            cart_quantity = 1, cart_created_at = 10\<rparr>"

definition line3 :: CartItem where
  "line3 = \<lparr>cart_id = ''c3'', cart_clerk_id = ''user_a'', cart_product_id = p1_id,
            cart_quantity = 3, cart_created_at = 30\<rparr>"

definition home :: ShippingAddress where
  "home = \<lparr>ship_name = ''A'', ship_phone = ''010'', ship_postcode = ''04524'',
           ship_address = ''Seoul'', ship_detailAddress = ''101''\<rparr>"

definition order1 :: "OrderStatus \<Rightarrow> Order" where
  "order1 st = \<lparr>ord_id = o1_id, ord_clerk_id = ''user_a'', ord_total_amount = 2500,
                ord_status = st, ord_shipping_address = Some home, ord_order_note = None,
                ord_payment_id = None, ord_payment_method = None, ord_payment_status = None,
                ord_paid_at = None, ord_payment_info = None, ord_created_at = 40\<rparr>"

text \<open>The environment of a request by \<open>user\<close> in which the calls listed in \<open>bad\<close> fail.\<close>

definition envOf :: "string \<Rightarrow> StoreCall list \<Rightarrow> FetchOutcome \<Rightarrow> Env" where
  "envOf user bad g =
     \<lparr>auth_userId = Some user, now = 50, secretKey = Some ''sk'',
      store_fails = (\<lambda>c. c \<in> set bad), new_order_id = o1_id, new_cart_id = ''c9'',
      gateway = (\<lambda>k i a. g)\<rparr>"

text \<open>A shop with the given cart rows and orders.\<close>

definition shop :: "CartItem list \<Rightarrow> Order list \<Rightarrow> World" where
  "shop cs os =
     \<lparr>products = [product1, product2], cart_items = cs, orders = os, order_items = [],
      write_log = [], gateway_calls = []\<rparr>"

section \<open>Facts shared by the proofs\<close>

lemma single_Row_iff: "single f rows = Row r \<longleftrightarrow> \<not> f \<and> rows = [r]"
  by (auto simp: single_def split: list.splits)

lemma filter_single_holds: "filter P xs = [r] \<Longrightarrow> P r"
proof -
  assume "filter P xs = [r]"
  then have "r \<in> set (filter P xs)" by simp
  then show "P r" by simp
qed

lemma getOrderById_Some:
  assumes "getOrderById env w orderId = Some (order, items)"
  shows "\<exists>userId. currentUser env = Some userId \<and> uuidRegex_test orderId
          \<and> \<not> store_fails env OrdersSelectOne
          \<and> filter (\<lambda>r. ord_id r = orderId \<and> ord_clerk_id r = userId) (orders w) = [order]
          \<and> ord_id order = orderId \<and> ord_clerk_id order = userId"
  using assms
  by (auto simp: getOrderById_def single_Row_iff split: option.splits if_splits SingleResult.splits dest: filter_single_holds)

lemma getOrderById_not_owned:
  assumes "currentUser env = Some userId"
      and "\<forall>r \<in> set (orders w). ord_id r = orderId \<longrightarrow> ord_clerk_id r \<noteq> userId"
  shows "getOrderById env w orderId = None"
proof -
  from assms(2) have "filter (\<lambda>r. ord_id r = orderId \<and> ord_clerk_id r = userId) (orders w) = []"
    by (auto simp: filter_empty_conv)
  with assms(1) show ?thesis
    by (simp add: getOrderById_def single_def)
qed





lemma validateCart_message:
  "validateCart xs = Some m \<Longrightarrow> m \<noteq> MsgOrderItemsSaveFailed"
  by (induction xs rule: validateCart.induct) (auto split: if_splits)


lemma createOrder_run:
  assumes "currentUser env = Some userId" and "getCartItems env w \<noteq> []"
      and "validateCart (getCartItems env w) = None"
      and "\<not> store_fails env OrdersInsert" and "\<not> store_fails env OrderItemsInsert"
  shows "fst (createOrder env w shippingAddress orderNote) =
           \<lparr>cr_success = True, cr_orderId = Some (new_order_id env), cr_message = MsgOrderCreated\<rparr>"
    and "orders (snd (createOrder env w shippingAddress orderNote)) = orders w @
           [\<lparr>ord_id = new_order_id env, ord_clerk_id = userId,
             ord_total_amount = totalAmountOf (getCartItems env w), ord_status = pending,
             ord_shipping_address = Some shippingAddress,
             ord_order_note = noteOrNull orderNote,
             ord_payment_id = None, ord_payment_method = None,
             ord_payment_status = None, ord_paid_at = None,
             ord_payment_info = None, ord_created_at = now env\<rparr>]"
    and "order_items (snd (createOrder env w shippingAddress orderNote)) =
           order_items w @ map (toOrderItem (new_order_id env)) (getCartItems env w)"
    and "cart_items (snd (createOrder env w shippingAddress orderNote)) =
           (if store_fails env CartDeleteAll then cart_items w
            else filter (\<lambda>c. cart_clerk_id c \<noteq> userId) (cart_items w))"
    and "write_log (snd (createOrder env w shippingAddress orderNote)) =
           write_log w @ [OrdersInsert, OrderItemsInsert, CartDeleteAll]"
  using assms
  by (simp_all add: createOrder_def Let_def logWrite_def)

lemma createOrder_items_fail_run:
  assumes "currentUser env = Some userId" and "getCartItems env w \<noteq> []"
      and "validateCart (getCartItems env w) = None"
      and "\<not> store_fails env OrdersInsert" and "store_fails env OrderItemsInsert"
  shows "fst (createOrder env w shippingAddress orderNote) =
           \<lparr>cr_success = False, cr_orderId = None, cr_message = MsgOrderItemsSaveFailed\<rparr>"
    and "map ord_id (orders (snd (createOrder env w shippingAddress orderNote))) =
           map ord_id (orders w) @ [new_order_id env]"
    and "order_items (snd (createOrder env w shippingAddress orderNote)) = order_items w"
    and "cart_items (snd (createOrder env w shippingAddress orderNote)) = cart_items w"
    and "write_log (snd (createOrder env w shippingAddress orderNote)) =
           write_log w @ [OrdersInsert, OrderItemsInsert]"
  using assms
  by (simp_all add: createOrder_def Let_def failOrder_def logWrite_def)

lemma createOrder_items_fail_only:
  assumes "cr_message (fst (createOrder env w shippingAddress orderNote)) = MsgOrderItemsSaveFailed"
  shows "\<not> store_fails env OrdersInsert \<and> store_fails env OrderItemsInsert"
  using assms
  by (auto simp: createOrder_def Let_def failOrder_def split: option.splits if_splits
        dest: validateCart_message)


section \<open>Runs of the concrete shop\<close>

lemma uuid_o1: "uuidRegex_test o1_id"
  by code_simp

lemma uuid_p1: "uuidRegex_test p1_id"
  by code_simp

lemma currentUser_demo: "currentUser (envOf ''user_a'' bad g) = Some ''user_a''"
  by (simp add: currentUser_def envOf_def)

lemma store_fails_demo: "store_fails (envOf u bad g) c = (c \<in> set bad)"
  by (simp add: envOf_def)




lemma getOrderById_demo:
  "getOrderById (envOf ''user_a'' bad g) (shop cs [order1 st]) o1_id =
     (if OrdersSelectOne \<in> set bad \<or> OrderItemsSelect \<in> set bad then None else Some (order1 st, []))"
  by (simp add: getOrderById_def currentUser_def envOf_def shop_def uuid_o1 single_def order1_def)

lemma getCartItems_demo:
  "getCartItems (envOf ''user_a'' bad g) (shop [line1, line2] os) =
     (if CartSelectJoin \<in> set bad then [] else [(line1, product1), (line2, product2)])"
  by (simp add: getCartItems_def currentUser_def envOf_def shop_def line1_def line2_def
        joinProduct_def product1_def product2_def p1_id_def p2_id_def)

lemma getProductById_demo:
  "getProductById (envOf u [] g) (shop cs os) p1_id = Ret (Some product1)"
proof -
  have "filter (\<lambda>p. prod_id p = p1_id \<and> prod_is_active p) [product1, product2] = [product1]"
    by (simp add: product1_def product2_def p1_id_def p2_id_def)
  then show ?thesis
    by (simp add: getProductById_def uuid_p1 single_def envOf_def shop_def)
qed

section \<open>Payment confirmation checks the amount first\<close>

text \<open>
  Claim C1.  Whenever \<open>confirmPayment\<close> has loaded the order and the reported amount
  differs from the order's \<open>total_amount\<close>, the call fails with the amount-mismatch
  message and returns the world it was given: no request was sent to the gateway
  (\<open>gateway_calls\<close>), no write was sent to the store (\<open>write_log\<close>) and every field of
  every order is unchanged.
\<close>

theorem confirmPayment_amount_mismatch:
  assumes "getOrderById env w orderId = Some (order, items)"
      and "amount \<noteq> ord_total_amount order"
  shows "confirmPayment env w paymentKey orderId amount = ((False, MsgAmountMismatch), w)"
proof -
  from getOrderById_Some [OF assms(1)] obtain userId
    where "currentUser env = Some userId" and "ord_clerk_id order = userId"
    by blast
  with assms show ?thesis
    by (simp add: confirmPayment_def)
qed

theorem confirmPayment_amount_mismatch_witness:
  "getOrderById (envOf ''user_a'' [] FetchThrows) (shop [] [order1 pending]) o1_id
      = Some (order1 pending, [])
   \<and> 2400 \<noteq> ord_total_amount (order1 pending)
   \<and> confirmPayment (envOf ''user_a'' [] FetchThrows) (shop [] [order1 pending]) ''key'' o1_id 2400
      = ((False, MsgAmountMismatch), shop [] [order1 pending])"
proof -
  have h1: "getOrderById (envOf ''user_a'' [] FetchThrows) (shop [] [order1 pending]) o1_id
      = Some (order1 pending, [])"
    by (simp add: getOrderById_demo)
  have h2: "2400 \<noteq> ord_total_amount (order1 pending)"
    by (simp add: order1_def)
  from confirmPayment_amount_mismatch [OF h1 h2] h1 h2 show ?thesis
    by simp
qed

section \<open>The order status state machine\<close>



section \<open>Checkout\<close>



text \<open>
  Claim C5.  For a signed-in buyer without any cart row, \<open>createOrder\<close> fails with the
  empty-cart message and returns the world it was given: no order header, no order line,
  and no write call at all (\<open>write_log\<close> is unchanged), whatever the store would have
  answered.
\<close>

theorem createOrder_empty_cart:
  assumes "currentUser env = Some userId"
      and "filter (\<lambda>c. cart_clerk_id c = userId) (cart_items w) = []"
  shows "createOrder env w shippingAddress orderNote = (failOrder MsgCartEmpty, w)"
  using assms
  by (simp add: createOrder_def getCartItems_def)

theorem createOrder_empty_cart_witness:
  "currentUser (envOf ''user_b'' [] FetchThrows) = Some ''user_b''
   \<and> filter (\<lambda>c. cart_clerk_id c = ''user_b'') (cart_items (shop [line1, line2] [])) = []
   \<and> createOrder (envOf ''user_b'' [] FetchThrows) (shop [line1, line2] []) home None
       = (failOrder MsgCartEmpty, shop [line1, line2] [])"
proof -
  have h1: "currentUser (envOf ''user_b'' [] FetchThrows) = Some ''user_b''"
    by (simp add: currentUser_def envOf_def)
  have h2: "filter (\<lambda>c. cart_clerk_id c = ''user_b'') (cart_items (shop [line1, line2] [])) = []"
    by (simp add: shop_def line1_def line2_def)
  from createOrder_empty_cart [OF h1 h2] h1 h2 show ?thesis
    by simp
qed

text \<open>
  Claim C6, as amended.  If the insert of the order lines fails after the order header was
  inserted, \<open>createOrder\<close> returns a failure with the message reserved for this case (no
  other path of \<open>createOrder\<close> returns it) and without an order id; no order line is
  written and the cart is not cleared.
\<close>

theorem createOrder_items_insert_failure:
  assumes "currentUser env = Some userId"
      and "getCartItems env w \<noteq> []"
      and "validateCart (getCartItems env w) = None"
      and "\<not> store_fails env OrdersInsert"
      and "store_fails env OrderItemsInsert"
  shows "fst (createOrder env w shippingAddress orderNote) =
           \<lparr>cr_success = False, cr_orderId = None, cr_message = MsgOrderItemsSaveFailed\<rparr>
       \<and> order_items (snd (createOrder env w shippingAddress orderNote)) = order_items w
       \<and> cart_items (snd (createOrder env w shippingAddress orderNote)) = cart_items w
       \<and> (\<forall>env' w'. cr_message (fst (createOrder env' w' shippingAddress orderNote))
                        = MsgOrderItemsSaveFailed \<longrightarrow>
                      \<not> store_fails env' OrdersInsert \<and> store_fails env' OrderItemsInsert)"
  using createOrder_items_fail_run(1,3,4) [OF assms] createOrder_items_fail_only
  by blast

theorem createOrder_items_insert_failure_witness:
  "fst (createOrder (envOf ''user_a'' [OrderItemsInsert] FetchThrows) (shop [line1, line2] [])
          home None) =
     \<lparr>cr_success = False, cr_orderId = None, cr_message = MsgOrderItemsSaveFailed\<rparr>
   \<and> order_items (snd (createOrder (envOf ''user_a'' [OrderItemsInsert] FetchThrows)
          (shop [line1, line2] []) home None)) = []
   \<and> cart_items (snd (createOrder (envOf ''user_a'' [OrderItemsInsert] FetchThrows)
          (shop [line1, line2] []) home None)) = [line1, line2]"
proof -
  let ?env = "envOf ''user_a'' [OrderItemsInsert] FetchThrows"
  let ?w = "shop [line1, line2] []"
  have u: "currentUser ?env = Some ''user_a''"
    by (rule currentUser_demo)
  have c: "getCartItems ?env ?w \<noteq> []"
    by (simp add: getCartItems_demo)
  have v: "validateCart (getCartItems ?env ?w) = None"
    unfolding getCartItems_demo
    by (simp add: line1_def line2_def product1_def product2_def)
  have f1: "\<not> store_fails ?env OrdersInsert" and f2: "store_fails ?env OrderItemsInsert"
    by (simp_all add: store_fails_demo)
  from createOrder_items_insert_failure [OF u c v f1 f2, of home None] show ?thesis
    by (simp add: shop_def)
qed

text \<open>
  Claim C6 as stated fails.  In the run below the insert of the order lines fails after
  the header was inserted: the result carries no order id, the only write calls sent to
  the store are the two inserts (no delete of the header follows), and the header is still
  in the order table.
\<close>

theorem createOrder_no_compensation_counterexample:
  "cr_orderId (fst (createOrder (envOf ''user_a'' [OrderItemsInsert] FetchThrows)
                      (shop [line1, line2] []) home None)) = None
   \<and> write_log (snd (createOrder (envOf ''user_a'' [OrderItemsInsert] FetchThrows)
                      (shop [line1, line2] []) home None)) = [OrdersInsert, OrderItemsInsert]
   \<and> map ord_id (orders (snd (createOrder (envOf ''user_a'' [OrderItemsInsert] FetchThrows)
                      (shop [line1, line2] []) home None))) = [o1_id]"
proof -
  let ?env = "envOf ''user_a'' [OrderItemsInsert] FetchThrows"
  let ?w = "shop [line1, line2] []"
  have u: "currentUser ?env = Some ''user_a''"
    by (rule currentUser_demo)
  have c: "getCartItems ?env ?w \<noteq> []"
    by (simp add: getCartItems_demo)
  have v: "validateCart (getCartItems ?env ?w) = None"
    unfolding getCartItems_demo
    by (simp add: line1_def line2_def product1_def product2_def)
  have f1: "\<not> store_fails ?env OrdersInsert" and f2: "store_fails ?env OrderItemsInsert"
    by (simp_all add: store_fails_demo)
  from createOrder_items_fail_run(1,2,5) [OF u c v f1 f2, of home None] show ?thesis
    by (simp add: shop_def envOf_def)
qed

text \<open>
  Claim C9.  When the header and the lines have been written and the final delete of the
  cart rows fails, \<open>createOrder\<close> still returns success with the order id, and the cart
  rows are left as they were (the delete was sent, as the write log shows, and failed).
\<close>

theorem createOrder_cart_clear_failure:
  assumes "currentUser env = Some userId"
      and "getCartItems env w \<noteq> []"
      and "validateCart (getCartItems env w) = None"
      and "\<not> store_fails env OrdersInsert"
      and "\<not> store_fails env OrderItemsInsert"
      and "store_fails env CartDeleteAll"
  shows "fst (createOrder env w shippingAddress orderNote) =
           \<lparr>cr_success = True, cr_orderId = Some (new_order_id env), cr_message = MsgOrderCreated\<rparr>
       \<and> cart_items (snd (createOrder env w shippingAddress orderNote)) = cart_items w
       \<and> write_log (snd (createOrder env w shippingAddress orderNote)) =
           write_log w @ [OrdersInsert, OrderItemsInsert, CartDeleteAll]"
  using createOrder_run(1,4,5) [OF assms(1-5)] assms(6)
  by simp

theorem createOrder_cart_clear_failure_witness:
  "fst (createOrder (envOf ''user_a'' [CartDeleteAll] FetchThrows) (shop [line1, line2] [])
          home None) =
     \<lparr>cr_success = True, cr_orderId = Some o1_id, cr_message = MsgOrderCreated\<rparr>
   \<and> cart_items (snd (createOrder (envOf ''user_a'' [CartDeleteAll] FetchThrows)
          (shop [line1, line2] []) home None)) = [line1, line2]"
proof -
  let ?env = "envOf ''user_a'' [CartDeleteAll] FetchThrows"
  let ?w = "shop [line1, line2] []"
  have u: "currentUser ?env = Some ''user_a''"
    by (rule currentUser_demo)
  have c: "getCartItems ?env ?w \<noteq> []"
    by (simp add: getCartItems_demo)
  have v: "validateCart (getCartItems ?env ?w) = None"
    unfolding getCartItems_demo
    by (simp add: line1_def line2_def product1_def product2_def)
  have f1: "\<not> store_fails ?env OrdersInsert" and f2: "\<not> store_fails ?env OrderItemsInsert"
    and f3: "store_fails ?env CartDeleteAll"
    by (simp_all add: store_fails_demo)
  from createOrder_cart_clear_failure [OF u c v f1 f2 f3, of home None] show ?thesis
    by (simp add: shop_def envOf_def)
qed

section \<open>Adding to the cart\<close>

text \<open>
  Claim C4.  For a buyer who already has a cart line for the product, \<open>addToCart\<close> of a
  further quantity (at least 1) succeeds only if the existing plus the requested quantity
  is within the product's stock, and then stores that sum in the line; if the sum exceeds
  the stock, the call fails with an insufficient-stock message and the world, hence the
  stored line, is unchanged.  With stock 5 and a line of quantity 3, adding 3 fails and the
  line stays at 3 (this is the concrete run below).
\<close>

theorem addToCart_existing_line:
  assumes "currentUser env = Some userId"
      and "getProductById env w productId = Ret (Some product)"
      and "filter (\<lambda>c. cart_clerk_id c = userId \<and> cart_product_id c = productId) (cart_items w)
             = [line]"
      and "\<not> store_fails env CartSelectExisting"
      and "1 \<le> quantity"
  shows "(fst (fst (addToCart env w productId quantity)) \<longrightarrow>
            cart_quantity line + quantity \<le> prod_stock_quantity product
          \<and> cart_items (snd (addToCart env w productId quantity)) =
              map (\<lambda>c. if cart_id c = cart_id line
                        then c\<lparr>cart_quantity := cart_quantity line + quantity\<rparr> else c)
                (cart_items w))
       \<and> (prod_stock_quantity product < cart_quantity line + quantity \<longrightarrow>
            addToCart env w productId quantity =
              ((False,
                if prod_stock_quantity product < quantity
                then MsgStockInsufficient (prod_stock_quantity product)
                else MsgStockInsufficientWithExisting (cart_quantity line)
                       (prod_stock_quantity product)), w))
       \<and> (cart_quantity line + quantity \<le> prod_stock_quantity product
            \<and> quantity \<le> prod_stock_quantity product
            \<and> \<not> store_fails env CartUpdateQuantity \<longrightarrow>
            fst (addToCart env w productId quantity)
              = (True, MsgCartAddedTotal (cart_quantity line + quantity)))"
  using assms
  by (simp add: addToCart_def single_def Let_def logWrite_def)

theorem addToCart_existing_line_witness:
  "currentUser (envOf ''user_a'' [] FetchThrows) = Some ''user_a''
   \<and> getProductById (envOf ''user_a'' [] FetchThrows) (shop [line3] []) p1_id = Ret (Some product1)
   \<and> filter (\<lambda>c. cart_clerk_id c = ''user_a'' \<and> cart_product_id c = p1_id)
        (cart_items (shop [line3] [])) = [line3]
   \<and> \<not> store_fails (envOf ''user_a'' [] FetchThrows) CartSelectExisting
   \<and> prod_stock_quantity product1 = 5 \<and> cart_quantity line3 = 3
   \<and> addToCart (envOf ''user_a'' [] FetchThrows) (shop [line3] []) p1_id 3
       = ((False, MsgStockInsufficientWithExisting 3 5), shop [line3] [])
   \<and> cart_items (snd (addToCart (envOf ''user_a'' [] FetchThrows) (shop [line3] []) p1_id 3))
       = [line3]"
proof -
  let ?env = "envOf ''user_a'' [] FetchThrows"
  have h1: "currentUser ?env = Some ''user_a''"
    by (rule currentUser_demo)
  have h2: "getProductById ?env (shop [line3] []) p1_id = Ret (Some product1)"
    by (rule getProductById_demo)
  have h3: "filter (\<lambda>c. cart_clerk_id c = ''user_a'' \<and> cart_product_id c = p1_id)
        (cart_items (shop [line3] [])) = [line3]"
    by (simp add: shop_def line3_def)
  have h4: "\<not> store_fails ?env CartSelectExisting"
    by (simp add: store_fails_demo)
  have h5: "(1::int) \<le> 3"
    by simp
  have s: "prod_stock_quantity product1 = 5" and q: "cart_quantity line3 = 3"
    by (simp_all add: product1_def line3_def)
  from addToCart_existing_line [OF h1 h2 h3 h4 h5] s q
  have "addToCart ?env (shop [line3] []) p1_id 3
       = ((False, MsgStockInsufficientWithExisting 3 5), shop [line3] [])"
    by simp
  moreover have "cart_items (shop [line3] []) = [line3]"
    by (simp add: shop_def)
  ultimately show ?thesis
    using h1 h2 h3 h4 s q by simp
qed

section \<open>Gateway failures, cancellation and ownership\<close>






text \<open>
  Claim C10.  \<open>getOrderById\<close> filters by the signed-in user, so every order it returns
  belongs to that user; therefore \<open>requestPayment\<close>, \<open>confirmPayment\<close> and
  \<open>cancelPayment\<close> never return the no-permission result of their ownership re-check,
  and a caller who does not own the order gets the order-not-found result from all three.
\<close>

theorem ownership_recheck_unreachable:
  "(\<forall>order items. getOrderById env w orderId = Some (order, items) \<longrightarrow>
       currentUser env = Some (ord_clerk_id order))
   \<and> requestPayment env w orderId \<noteq> failPayment MsgNoPermission
   \<and> fst (confirmPayment env w paymentKey orderId amount) \<noteq> (False, MsgNoPermission)
   \<and> fst (cancelPayment env w orderId) \<noteq> (False, MsgNoPermission)
   \<and> (\<forall>userId. currentUser env = Some userId
         \<and> (\<forall>r \<in> set (orders w). ord_id r = orderId \<longrightarrow> ord_clerk_id r \<noteq> userId) \<longrightarrow>
         requestPayment env w orderId = failPayment MsgOrderNotFound
       \<and> confirmPayment env w paymentKey orderId amount = ((False, MsgOrderNotFound), w)
       \<and> cancelPayment env w orderId = ((False, MsgOrderNotFound), w))"
proof -
  have own: "\<And>order items. getOrderById env w orderId = Some (order, items) \<Longrightarrow>
       currentUser env = Some (ord_clerk_id order)"
    using getOrderById_Some by blast
  have r: "requestPayment env w orderId \<noteq> failPayment MsgNoPermission"
    by (auto simp: requestPayment_def failPayment_def split: option.splits dest: own)
  have c: "fst (confirmPayment env w paymentKey orderId amount) \<noteq> (False, MsgNoPermission)"
    by (auto simp: confirmPayment_def Let_def rejectionMessage_def
          split: option.splits FetchOutcome.splits JsonResult.splits dest: own)
  have x: "fst (cancelPayment env w orderId) \<noteq> (False, MsgNoPermission)"
    by (auto simp: cancelPayment_def split: option.splits dest: own)
  have n: "\<And>userId. currentUser env = Some userId \<Longrightarrow>
         \<forall>r \<in> set (orders w). ord_id r = orderId \<longrightarrow> ord_clerk_id r \<noteq> userId \<Longrightarrow>
         requestPayment env w orderId = failPayment MsgOrderNotFound
       \<and> confirmPayment env w paymentKey orderId amount = ((False, MsgOrderNotFound), w)
       \<and> cancelPayment env w orderId = ((False, MsgOrderNotFound), w)"
    using getOrderById_not_owned
    by (simp add: requestPayment_def confirmPayment_def cancelPayment_def)
  from own r c x n show ?thesis
    by blast
qed

theorem ownership_recheck_unreachable_witness:
  "currentUser (envOf ''user_b'' [] FetchThrows) = Some ''user_b''
   \<and> map ord_clerk_id (orders (shop [] [order1 pending])) = [''user_a'']
   \<and> confirmPayment (envOf ''user_b'' [] FetchThrows) (shop [] [order1 pending]) ''key'' o1_id 2500
       = ((False, MsgOrderNotFound), shop [] [order1 pending])
   \<and> getOrderById (envOf ''user_a'' [] FetchThrows) (shop [] [order1 pending]) o1_id
       = Some (order1 pending, [])
   \<and> currentUser (envOf ''user_a'' [] FetchThrows) = Some (ord_clerk_id (order1 pending))"
proof -
  let ?w = "shop [] [order1 pending]"
  have h1: "currentUser (envOf ''user_b'' [] FetchThrows) = Some ''user_b''"
    by (simp add: currentUser_def envOf_def)
  have h2: "\<forall>r \<in> set (orders ?w). ord_id r = o1_id \<longrightarrow> ord_clerk_id r \<noteq> ''user_b''"
    by (simp add: shop_def order1_def)
  have h3: "getOrderById (envOf ''user_a'' [] FetchThrows) ?w o1_id = Some (order1 pending, [])"
    by (simp add: getOrderById_demo)
  from ownership_recheck_unreachable
         [of "envOf ''user_b'' [] FetchThrows" ?w o1_id "''key''" 2500] h1 h2
  have 1: "confirmPayment (envOf ''user_b'' [] FetchThrows) ?w ''key'' o1_id 2500
       = ((False, MsgOrderNotFound), ?w)"
    by blast
  from ownership_recheck_unreachable
         [of "envOf ''user_a'' [] FetchThrows" ?w o1_id "''key''" 2500] h3
  have 2: "currentUser (envOf ''user_a'' [] FetchThrows) = Some (ord_clerk_id (order1 pending))"
    by blast
  have h4: "map ord_clerk_id (orders ?w) = [''user_a'']"
    by (simp add: shop_def order1_def)
  from h1 h4 1 h3 2 show ?thesis
    by blast
qed

end
